theory Spec2Isabelle
  imports Complex_Main
begin

section \<open>Numeric cells of a table\<close>

text \<open>
  Every cell of a pandas table in \<^verbatim>\<open>dashboard_financiero.py\<close> is a float64. A cell is
  modelled as an exact real number or one of the three special values of the format:
  plus infinity, minus infinity and NaN (which pandas reads as "missing"). The arithmetic
  follows IEEE 754 on the special values (a non-zero number divided by zero is an
  infinity, zero by zero is NaN, NaN is absorbing, no operation raises); on finite values
  it is exact real arithmetic, so the rounding error of binary floating point is not part
  of the model, and zero has no sign (it behaves as +0.0).

  The exact arithmetic differs from float64 in the following known ways, and every
  statement below about finite values is a statement about the exact values:
  \<^item> a float64 operation on finite values can overflow to an infinity, underflow to zero
    or absorb a small operand (prices \<^verbatim>\<open>[2**-520, 2**520]\<close> give the return
    \<^verbatim>\<open>inf\<close>, prices \<^verbatim>\<open>[1e17, 1]\<close> give the return \<^verbatim>\<open>-1.0\<close>); the model keeps the
    exact quotient;
  \<^item> \<^verbatim>\<open>round(2)\<close> rounds the float64 value, which can lie on the other side of a tie
    than the exact value (prices 160, 161: the exact return times 100 is 0.625 and
    rounds to 0.62, the float64 is slightly greater and rounds to 0.63);
  \<^item> the float64 standard deviation of a series whose exact deviation is 0 can be a small
    positive number (prices 27, 9, 3, 1), so that a ratio which is an infinity or NaN in
    the model is a large finite number in the code.
\<close>

datatype celda = Fin real | PInf | NInf | NaN

fun fneg :: "celda \<Rightarrow> celda" where
  "fneg (Fin a) = Fin (- a)"
| "fneg PInf = NInf"
| "fneg NInf = PInf"
| "fneg NaN = NaN"

fun fadd :: "celda \<Rightarrow> celda \<Rightarrow> celda" where
  "fadd (Fin a) (Fin b) = Fin (a + b)"
| "fadd NaN _ = NaN"
| "fadd _ NaN = NaN"
| "fadd PInf NInf = NaN"
| "fadd NInf PInf = NaN"
| "fadd PInf _ = PInf"
| "fadd _ PInf = PInf"
| "fadd NInf _ = NInf"
| "fadd _ NInf = NInf"

definition fsub :: "celda \<Rightarrow> celda \<Rightarrow> celda" where
  "fsub a b = fadd a (fneg b)"

fun fmul :: "celda \<Rightarrow> celda \<Rightarrow> celda" where
  "fmul (Fin a) (Fin b) = Fin (a * b)"
| "fmul NaN _ = NaN"
| "fmul _ NaN = NaN"
| "fmul (Fin a) PInf = (if a = 0 then NaN else if 0 < a then PInf else NInf)"
| "fmul (Fin a) NInf = (if a = 0 then NaN else if 0 < a then NInf else PInf)"
| "fmul PInf (Fin b) = (if b = 0 then NaN else if 0 < b then PInf else NInf)"
| "fmul NInf (Fin b) = (if b = 0 then NaN else if 0 < b then NInf else PInf)"
| "fmul PInf PInf = PInf"
| "fmul PInf NInf = NInf"
| "fmul NInf PInf = NInf"
| "fmul NInf NInf = PInf"

fun fdiv :: "celda \<Rightarrow> celda \<Rightarrow> celda" where
  "fdiv (Fin a) (Fin b) =
     (if b \<noteq> 0 then Fin (a / b)
      else if a = 0 then NaN
      else if 0 < a then PInf else NInf)"
| "fdiv NaN _ = NaN"
| "fdiv _ NaN = NaN"
| "fdiv (Fin a) PInf = Fin 0"
| "fdiv (Fin a) NInf = Fin 0"
| "fdiv PInf (Fin b) = (if 0 \<le> b then PInf else NInf)"
| "fdiv NInf (Fin b) = (if 0 \<le> b then NInf else PInf)"
| "fdiv PInf PInf = NaN"
| "fdiv PInf NInf = NaN"
| "fdiv NInf PInf = NaN"
| "fdiv NInf NInf = NaN"

fun fsqrt :: "celda \<Rightarrow> celda" where
  "fsqrt (Fin a) = (if 0 \<le> a then Fin (sqrt a) else NaN)"
| "fsqrt PInf = PInf"
| "fsqrt NInf = NaN"
| "fsqrt NaN = NaN"

text \<open>Comparisons: every comparison with NaN is false.\<close>

fun flt :: "celda \<Rightarrow> celda \<Rightarrow> bool" where
  "flt (Fin a) (Fin b) = (a < b)"
| "flt NaN _ = False"
| "flt _ NaN = False"
| "flt _ NInf = False"
| "flt PInf _ = False"
| "flt NInf _ = True"
| "flt _ PInf = True"

fun fle :: "celda \<Rightarrow> celda \<Rightarrow> bool" where
  "fle (Fin a) (Fin b) = (a \<le> b)"
| "fle NaN _ = False"
| "fle _ NaN = False"
| "fle NInf _ = True"
| "fle _ PInf = True"
| "fle _ NInf = False"
| "fle PInf _ = False"

text \<open>\<^verbatim>\<open>isfinite\<close>: the cell is a number, neither an infinity nor NaN.\<close>

fun finita :: "celda \<Rightarrow> bool" where
  "finita (Fin a) = True"
| "finita c = False"

text \<open>
  \<^verbatim>\<open>round(2)\<close> on a table is numpy's \<^verbatim>\<open>around\<close>: the value is scaled by a power of
  ten, rounded to the nearest integer with ties to the even one, and scaled back. The
  special values pass through unchanged.
\<close>

definition rint :: "real \<Rightarrow> int" where
  "rint y =
     (let f = \<lfloor>y\<rfloor>; d = y - of_int f
      in if d < 1 / 2 then f
         else if 1 / 2 < d then f + 1
         else if even f then f else f + 1)"

fun fround :: "nat \<Rightarrow> celda \<Rightarrow> celda" where
  "fround n (Fin a) = Fin (of_int (rint (a * 10 ^ n)) / 10 ^ n)"
| "fround n c = c"

section \<open>Column statistics\<close>

text \<open>
  The pandas reductions used by the program skip missing cells (\<^verbatim>\<open>skipna=True\<close>, the
  default) and give NaN when too few cells remain.
\<close>

definition validos :: "celda list \<Rightarrow> celda list" where
  "validos xs = filter (\<lambda>c. c \<noteq> NaN) xs"

primrec fsum :: "celda list \<Rightarrow> celda" where
  "fsum [] = Fin 0"
| "fsum (x # xs) = fadd x (fsum xs)"

definition fmean :: "celda list \<Rightarrow> celda" where
  "fmean xs =
     (let v = validos xs
      in if v = [] then NaN else fdiv (fsum v) (Fin (real (length v))))"

text \<open>\<^verbatim>\<open>std()\<close>: the sample standard deviation (\<^verbatim>\<open>ddof=1\<close>).\<close>

definition fstd :: "celda list \<Rightarrow> celda" where
  "fstd xs =
     (let v = validos xs; n = length v
      in if n \<le> 1 then NaN
         else let avg = fdiv (fsum v) (Fin (real n))
              in fsqrt (fdiv (fsum (map (\<lambda>x. fmul (fsub avg x) (fsub avg x)) v))
                             (Fin (real (n - 1)))))"

primrec fmin_desde :: "celda \<Rightarrow> celda list \<Rightarrow> celda" where
  "fmin_desde m [] = m"
| "fmin_desde m (x # xs) = fmin_desde (if flt x m then x else m) xs"

primrec fmax_desde :: "celda \<Rightarrow> celda list \<Rightarrow> celda" where
  "fmax_desde m [] = m"
| "fmax_desde m (x # xs) = fmax_desde (if flt m x then x else m) xs"

definition fmin :: "celda list \<Rightarrow> celda" where
  "fmin xs = (case validos xs of [] \<Rightarrow> NaN | v # vs \<Rightarrow> fmin_desde v vs)"

definition fmax :: "celda list \<Rightarrow> celda" where
  "fmax xs = (case validos xs of [] \<Rightarrow> NaN | v # vs \<Rightarrow> fmax_desde v vs)"

text \<open>
  \<^verbatim>\<open>quantile(q)\<close> with the default linear interpolation between the two order statistics
  around position \<open>q * (n - 1)\<close>.
\<close>

fun insertar :: "celda \<Rightarrow> celda list \<Rightarrow> celda list" where
  "insertar x [] = [x]"
| "insertar x (y # ys) = (if fle x y then x # y # ys else y # insertar x ys)"

definition ordenar :: "celda list \<Rightarrow> celda list" where
  "ordenar xs = foldr insertar xs []"

definition quantile :: "real \<Rightarrow> celda list \<Rightarrow> celda" where
  "quantile q xs =
     (let v = ordenar (validos xs); n = length v
      in if n = 0 then NaN
         else let h = q * real (n - 1);
                  lo = nat \<lfloor>h\<rfloor>;
                  hi = min (lo + 1) (n - 1);
                  g = h - real lo
              in fadd (v ! lo) (fmul (fsub (v ! hi) (v ! lo)) (Fin g)))"

text \<open>
  \<^verbatim>\<open>cumprod()\<close>: the running product. A missing input cell gives a missing output cell
  and leaves the running product as it was.
\<close>

fun cumprod_desde :: "celda \<Rightarrow> celda list \<Rightarrow> celda list" where
  "cumprod_desde acc [] = []"
| "cumprod_desde acc (x # xs) =
     (if x = NaN then NaN # cumprod_desde acc xs
      else fmul acc x # cumprod_desde (fmul acc x) xs)"

definition cumprod :: "celda list \<Rightarrow> celda list" where
  "cumprod xs = cumprod_desde (Fin 1) xs"

text \<open>
  \<^verbatim>\<open>expanding().max()\<close>: the running maximum of the cells seen so far, missing cells
  skipped; NaN until the first cell that is not missing.
\<close>

fun expanding_max_desde :: "celda option \<Rightarrow> celda list \<Rightarrow> celda list" where
  "expanding_max_desde acc [] = []"
| "expanding_max_desde None (x # xs) =
     (if x = NaN then NaN # expanding_max_desde None xs
      else x # expanding_max_desde (Some x) xs)"
| "expanding_max_desde (Some m) (x # xs) =
     (if x = NaN then m # expanding_max_desde (Some m) xs
      else let m' = (if flt m x then x else m)
           in m' # expanding_max_desde (Some m') xs)"

definition expanding_max :: "celda list \<Rightarrow> celda list" where
  "expanding_max xs = expanding_max_desde None xs"

section \<open>Tables\<close>

text \<open>
  A DataFrame: the row labels (dates, as day numbers) and the named columns, each
  holding one cell per row label.
\<close>

type_synonym fecha = nat

record frame =
  indice :: "fecha list"
  columnas :: "(string \<times> celda list) list"

definition wf_frame :: "frame \<Rightarrow> bool" where
  "wf_frame df =
     (distinct (map fst (columnas df)) \<and>
      list_all (\<lambda>c. length (snd c) = length (indice df)) (columnas df))"

definition nfilas :: "frame \<Rightarrow> nat" where
  "nfilas df = length (indice df)"

definition ncolumnas :: "frame \<Rightarrow> nat" where
  "ncolumnas df = length (columnas df)"

text \<open>\<^verbatim>\<open>df.empty\<close>: no rows or no columns.\<close>

definition vacio :: "frame \<Rightarrow> bool" where
  "vacio df = (indice df = [] \<or> columnas df = [])"

definition sin_faltantes :: "frame \<Rightarrow> bool" where
  "sin_faltantes df = list_all (\<lambda>c. list_all (\<lambda>x. x \<noteq> NaN) (snd c)) (columnas df)"

text \<open>\<^verbatim>\<open>dropna()\<close>: keeps the rows in which no column has a missing cell.\<close>

definition fila_completa :: "frame \<Rightarrow> nat \<Rightarrow> bool" where
  "fila_completa df i = list_all (\<lambda>c. snd c ! i \<noteq> NaN) (columnas df)"

definition dropna :: "frame \<Rightarrow> frame" where
  "dropna df =
     (let keep = filter (fila_completa df) [0..<length (indice df)]
      in \<lparr>indice = map (\<lambda>i. indice df ! i) keep,
          columnas = map (\<lambda>c. (fst c, map (\<lambda>i. snd c ! i) keep)) (columnas df)\<rparr>)"

text \<open>
  \<^verbatim>\<open>pct_change()\<close>: each cell divided by the cell of the row before, minus one; the first
  row has no predecessor and is missing. (Older versions of pandas first fill a missing
  price with the price before it; the tables that \<^verbatim>\<open>calcular_metricas\<close> receives come
  from \<^verbatim>\<open>dropna()\<close> and have no missing price.)
\<close>

fun pct_change_col :: "celda list \<Rightarrow> celda list" where
  "pct_change_col [] = []"
| "pct_change_col (x # xs) =
     NaN # map2 (\<lambda>previo actual. fsub (fdiv actual previo) (Fin 1)) (x # xs) xs"

definition pct_change :: "frame \<Rightarrow> frame" where
  "pct_change df =
     \<lparr>indice = indice df,
      columnas = map (\<lambda>c. (fst c, pct_change_col (snd c))) (columnas df)\<rparr>"

section \<open>calcular\_metricas\<close>

datatype error = IndexError | ValueError

record metricas =
  precio_inicial :: celda
  precio_final :: celda
  rendimiento :: celda
  volatilidad_diaria :: celda
  volatilidad_anualizada :: celda
  sharpe :: celda
  sortino :: celda
  var_5 :: celda
  max_retorno :: celda
  min_retorno :: celda
  max_drawdown :: celda

text \<open>\<^verbatim>\<open>iloc[0]\<close> and \<^verbatim>\<open>iloc[-1]\<close> of a column that has at least one row.\<close>

definition primero :: "celda list \<Rightarrow> celda" where
  "primero xs = (case xs of [] \<Rightarrow> NaN | x # _ \<Rightarrow> x)"

definition ultimo :: "celda list \<Rightarrow> celda" where
  "ultimo xs = (case rev xs of [] \<Rightarrow> NaN | x # _ \<Rightarrow> x)"

text \<open>\<^verbatim>\<open>retornos[retornos < 0]\<close>: the cells that are not below zero become missing.\<close>

definition retornos_negativos :: "celda list \<Rightarrow> celda list" where
  "retornos_negativos r = map (\<lambda>x. if flt x (Fin 0) then x else NaN) r"

definition cumulative :: "celda list \<Rightarrow> celda list" where
  "cumulative r = cumprod (map (\<lambda>x. fadd (Fin 1) x) r)"

definition drawdown :: "celda list \<Rightarrow> celda list" where
  "drawdown r =
     (let c = cumulative r; running_max = expanding_max c
      in map2 (\<lambda>ci mi. fdiv (fsub ci mi) mi) c running_max)"

text \<open>
  The row of the metrics table for one instrument, before the final rounding: \<open>p\<close> is
  the instrument's price column and \<open>r\<close> its column of the returns table.
\<close>

definition metricas_columna :: "celda list \<Rightarrow> celda list \<Rightarrow> metricas" where
  "metricas_columna p r =
     \<lparr>precio_inicial = primero p,
      precio_final = ultimo p,
      rendimiento = fmul (fsub (fdiv (ultimo p) (primero p)) (Fin 1)) (Fin 100),
      volatilidad_diaria = fmul (fstd r) (Fin 100),
      volatilidad_anualizada = fmul (fmul (fstd r) (Fin (sqrt 252))) (Fin 100),
      sharpe = fmul (fdiv (fmean r) (fstd r)) (Fin (sqrt 252)),
      sortino = fmul (fdiv (fmean r) (fstd (retornos_negativos r))) (Fin (sqrt 252)),
      var_5 = fmul (quantile (5 / 100) r) (Fin 100),
      max_retorno = fmul (fmax r) (Fin 100),
      min_retorno = fmul (fmin r) (Fin 100),
      max_drawdown = fmul (fmin (drawdown r)) (Fin 100)\<rparr>"

text \<open>\<^verbatim>\<open>metricas.round(2)\<close>: every cell of the metrics table.\<close>

definition round_metricas :: "nat \<Rightarrow> metricas \<Rightarrow> metricas" where
  "round_metricas n m =
     \<lparr>precio_inicial = fround n (precio_inicial m),
      precio_final = fround n (precio_final m),
      rendimiento = fround n (rendimiento m),
      volatilidad_diaria = fround n (volatilidad_diaria m),
      volatilidad_anualizada = fround n (volatilidad_anualizada m),
      sharpe = fround n (sharpe m),
      sortino = fround n (sortino m),
      var_5 = fround n (var_5 m),
      max_retorno = fround n (max_retorno m),
      min_retorno = fround n (min_retorno m),
      max_drawdown = fround n (max_drawdown m)\<rparr>"

definition retornos_de :: "frame \<Rightarrow> frame" where
  "retornos_de datos = dropna (pct_change datos)"

text \<open>The metrics table before \<^verbatim>\<open>round(2)\<close>: one row per column of the price table.\<close>

definition metricas_sin_redondear :: "frame \<Rightarrow> (string \<times> metricas) list" where
  "metricas_sin_redondear datos =
     map2 (\<lambda>p r. (fst p, metricas_columna (snd p) (snd r)))
       (columnas datos) (columnas (retornos_de datos))"

text \<open>
  \<^verbatim>\<open>calcular_metricas(datos)\<close> returns the pair of the rounded metrics table and the
  returns table. \<^verbatim>\<open>datos.iloc[0]\<close> raises IndexError on a table without rows.
\<close>

definition calcular_metricas :: "frame \<Rightarrow> error + ((string \<times> metricas) list \<times> frame)" where
  "calcular_metricas datos =
     (let retornos = retornos_de datos
      in if indice datos = [] then Inl IndexError
         else Inr (map (\<lambda>m. (fst m, round_metricas 2 (snd m))) (metricas_sin_redondear datos),
                   retornos))"

section \<open>descargar\_datos\<close>

text \<open>
  The market-data client is outside the program: \<^verbatim>\<open>yf.download(ticker, start, end)\<close> is a
  parameter \<open>yf\<close> that either raises (with the text of the exception) or returns a table.
\<close>

datatype descarga = Excepcion string | Descargado frame

type_synonym cliente = "string \<Rightarrow> fecha \<Rightarrow> fecha \<Rightarrow> descarga"

text \<open>A Series: labelled cells. \<^verbatim>\<open>df['Close']\<close> is the column with the row labels.\<close>

type_synonym serie = "(fecha \<times> celda) list"

definition tiene_columna :: "frame \<Rightarrow> string \<Rightarrow> bool" where
  "tiene_columna df nombre = (nombre \<in> set (map fst (columnas df)))"

definition columna :: "frame \<Rightarrow> string \<Rightarrow> serie" where
  "columna df nombre =
     (case map_of (columnas df) nombre of None \<Rightarrow> [] | Some v \<Rightarrow> zip (indice df) v)"

text \<open>
  \<^verbatim>\<open>datos[ticker] = serie\<close>. A table without rows takes the row labels of a series that
  has some. The series is then aligned to the row labels of the table: a label the series
  lacks gives a missing cell, a label the table lacks is dropped, and a series whose
  labels differ from the table's and repeat cannot be aligned (pandas raises ValueError).
  The column replaces the column of that name, or is appended.
\<close>

definition reindexar :: "serie \<Rightarrow> fecha list \<Rightarrow> celda list" where
  "reindexar s idx = map (\<lambda>d. case map_of s d of None \<Rightarrow> NaN | Some v \<Rightarrow> v) idx"

definition poner_columna :: "frame \<Rightarrow> string \<Rightarrow> celda list \<Rightarrow> frame" where
  "poner_columna df nombre v =
     (if tiene_columna df nombre
      then df\<lparr>columnas := map (\<lambda>c. if fst c = nombre then (nombre, v) else c) (columnas df)\<rparr>
      else df\<lparr>columnas := columnas df @ [(nombre, v)]\<rparr>)"

definition asignar :: "frame \<Rightarrow> string \<Rightarrow> serie \<Rightarrow> string + frame" where
  "asignar df nombre s =
     (let df1 = (if indice df = [] \<and> s \<noteq> []
                 then \<lparr>indice = map fst s,
                       columnas = map (\<lambda>c. (fst c, replicate (length s) NaN)) (columnas df)\<rparr>
                 else df)
      in if map fst s = indice df1 then Inr (poner_columna df1 nombre (map snd s))
         else if \<not> distinct (map fst s)
           then Inl ''cannot reindex on an axis with duplicate labels''
         else Inr (poner_columna df1 nombre (reindexar s (indice df1))))"

text \<open>
  One turn of the loop over the tickers: the body of the \<^verbatim>\<open>try\<close> either extends the table
  or appends one message to \<^verbatim>\<open>errores\<close>; every exception is caught.
\<close>

definition paso :: "cliente \<Rightarrow> fecha \<Rightarrow> fecha \<Rightarrow> string \<Rightarrow> frame \<times> string list
    \<Rightarrow> frame \<times> string list" where
  "paso yf inicio fin ticker st =
     (let datos = fst st; errores = snd st
      in case yf ticker inicio fin of
           Excepcion e \<Rightarrow> (datos, errores @ [ticker @ '': '' @ e])
         | Descargado df \<Rightarrow>
             if \<not> vacio df then
               if tiene_columna df ''Close'' then
                 (case asignar datos ticker (columna df ''Close'') of
                    Inl e \<Rightarrow> (datos, errores @ [ticker @ '': '' @ e])
                  | Inr datos' \<Rightarrow> (datos', errores))
               else (datos, errores @ [ticker @ '': Formato inesperado''])
             else (datos, errores @ [ticker @ '': Sin datos disponibles'']))"

primrec bucle :: "cliente \<Rightarrow> fecha \<Rightarrow> fecha \<Rightarrow> string list \<Rightarrow> frame \<times> string list
    \<Rightarrow> frame \<times> string list" where
  "bucle yf inicio fin [] st = st"
| "bucle yf inicio fin (ticker # resto) st = bucle yf inicio fin resto (paso yf inicio fin ticker st)"

text \<open>The assembled table and the recorded messages when the loop ends.\<close>

definition ensamblar :: "cliente \<Rightarrow> string list \<Rightarrow> fecha \<Rightarrow> fecha \<Rightarrow> frame \<times> string list" where
  "ensamblar yf tickers inicio fin = bucle yf inicio fin tickers (\<lparr>indice = [], columnas = []\<rparr>, [])"

text \<open>
  \<^verbatim>\<open>descargar_datos\<close> returns \<^verbatim>\<open>datos.dropna()\<close>; the second component is the list of
  warnings it has shown, one \<^verbatim>\<open>st.warning\<close> for each message of \<^verbatim>\<open>errores\<close>.
\<close>

definition descargar_datos :: "cliente \<Rightarrow> string list \<Rightarrow> fecha \<Rightarrow> fecha \<Rightarrow> frame \<times> string list" where
  "descargar_datos yf tickers inicio fin =
     (let st = ensamblar yf tickers inicio fin in (dropna (fst st), snd st))"

section \<open>Correlation matrix\<close>

text \<open>
  \<^verbatim>\<open>retornos.corr()\<close>: Pearson's coefficient of every pair of columns, over the rows in
  which both cells are finite (the library masks the table with \<^verbatim>\<open>isfinite\<close>). pandas
  gives NaN when no such row is left or when the divisor is zero, and clips the quotient
  to the interval from -1 to 1. The library accumulates the sums in one pass; in exact
  arithmetic they are the sums written here.
\<close>

definition recortar :: "celda \<Rightarrow> celda" where
  "recortar v = (if flt (Fin 1) v then Fin 1 else if flt v (Fin (- 1)) then Fin (- 1) else v)"

definition corr_par :: "celda list \<Rightarrow> celda list \<Rightarrow> celda" where
  "corr_par x y =
     (let pares = filter (\<lambda>p. finita (fst p) \<and> finita (snd p)) (zip x y);
          n = length pares
      in if n < 1 then NaN
         else let meanx = fdiv (fsum (map fst pares)) (Fin (real n));
                  meany = fdiv (fsum (map snd pares)) (Fin (real n));
                  ssqdm_x = fsum (map (\<lambda>p. fmul (fsub (fst p) meanx) (fsub (fst p) meanx)) pares);
                  ssqdm_y = fsum (map (\<lambda>p. fmul (fsub (snd p) meany) (fsub (snd p) meany)) pares);
                  covxy = fsum (map (\<lambda>p. fmul (fsub (fst p) meanx) (fsub (snd p) meany)) pares);
                  divisor = fsqrt (fmul ssqdm_x ssqdm_y)
              in if divisor \<noteq> Fin 0 then recortar (fdiv covxy divisor) else NaN)"

definition corr :: "frame \<Rightarrow> (string \<times> (string \<times> celda) list) list" where
  "corr df =
     map (\<lambda>ci. (fst ci, map (\<lambda>cj. (fst cj, corr_par (snd ci) (snd cj))) (columnas df)))
       (columnas df)"

text \<open>The entry of the matrix in row \<open>i\<close> and column \<open>j\<close>.\<close>

definition entrada :: "(string \<times> (string \<times> celda) list) list \<Rightarrow> nat \<Rightarrow> nat \<Rightarrow> celda" where
  "entrada m i j = snd (snd (m ! i) ! j)"

section \<open>The render pass\<close>

text \<open>
  The script runs top to bottom on every interaction. What a pass shows is modelled as
  the list of its outputs, in order; \<^verbatim>\<open>st.stop()\<close> ends the list, and so does an
  exception that nothing catches. The warnings of the download come first, as
  \<^verbatim>\<open>descargar_datos\<close> shows them. \<^verbatim>\<open>descargar_datos\<close> catches every exception of the
  download itself, so the \<^verbatim>\<open>except\<close> branch around its call is not reached in the
  model. After the summary cards the pass is represented by the charts and tables of the
  four tabs and of the statistics panel, each with the table it is built from; the
  selectors, the details of the tabs, the download buttons and the footer are left out.
\<close>

datatype mensaje = Sin_seleccion | Sin_datos_validos

datatype salida =
    Advertencia string
  | Aviso mensaje
  | Error_visible mensaje
  | Excepcion_no_capturada error
  | Tarjeta_activos nat
  | Tarjeta_mejor string celda
  | Tarjeta_peor string celda
  | Tarjeta_sharpe string celda
  | Tarjeta_dias nat
  | Tabla_metricas "(string \<times> metricas) list"
  | Grafico_evolucion frame
  | Grafico_riesgo_rendimiento "(string \<times> metricas) list"
  | Grafico_correlacion "(string \<times> (string \<times> celda) list) list"
  | Histograma_retornos frame

text \<open>
  \<^verbatim>\<open>idxmax()\<close> and \<^verbatim>\<open>idxmin()\<close> of a column of the metrics table: the label of the first
  greatest (least) cell that is not missing. When every cell is missing the call raises
  (older versions of the library return NaN and the lookup \<^verbatim>\<open>metricas.loc[...]\<close> that
  follows raises instead).
\<close>

fun mejor_desde :: "(celda \<Rightarrow> celda \<Rightarrow> bool) \<Rightarrow> string \<times> celda \<Rightarrow> (string \<times> celda) list \<Rightarrow> string" where
  "mejor_desde supera b [] = fst b"
| "mejor_desde supera b (c # cs) = mejor_desde supera (if supera (snd c) (snd b) then c else b) cs"

definition idxmax :: "(string \<times> celda) list \<Rightarrow> error + string" where
  "idxmax col =
     (case filter (\<lambda>c. snd c \<noteq> NaN) col of
        [] \<Rightarrow> Inl ValueError
      | c # cs \<Rightarrow> Inr (mejor_desde (\<lambda>x y. flt y x) c cs))"

definition idxmin :: "(string \<times> celda) list \<Rightarrow> error + string" where
  "idxmin col =
     (case filter (\<lambda>c. snd c \<noteq> NaN) col of
        [] \<Rightarrow> Inl ValueError
      | c # cs \<Rightarrow> Inr (mejor_desde (\<lambda>x y. flt x y) c cs))"

definition valor :: "(string \<times> celda) list \<Rightarrow> string \<Rightarrow> celda" where
  "valor col etiqueta = (case map_of col etiqueta of None \<Rightarrow> NaN | Some v \<Rightarrow> v)"

text \<open>
  The five summary cards, in the order in which the script shows them, and the exception
  that ends the pass when one of the three lookups raises.
\<close>

definition resumen_ejecutivo :: "frame \<Rightarrow> (string \<times> metricas) list \<Rightarrow> salida list \<times> error option" where
  "resumen_ejecutivo datos metricas =
     (let rend = map (\<lambda>m. (fst m, rendimiento (snd m))) metricas;
          sh = map (\<lambda>m. (fst m, sharpe (snd m))) metricas;
          c1 = [Tarjeta_activos (ncolumnas datos)]
      in case idxmax rend of
           Inl e \<Rightarrow> (c1, Some e)
         | Inr mejor \<Rightarrow>
             let c2 = c1 @ [Tarjeta_mejor mejor (valor rend mejor)]
             in case idxmin rend of
                  Inl e \<Rightarrow> (c2, Some e)
                | Inr peor \<Rightarrow>
                    let c3 = c2 @ [Tarjeta_peor peor (valor rend peor)]
                    in case idxmax sh of
                         Inl e \<Rightarrow> (c3, Some e)
                       | Inr mejor_sharpe \<Rightarrow>
                           (c3 @ [Tarjeta_sharpe mejor_sharpe (valor sh mejor_sharpe),
                                  Tarjeta_dias (nfilas datos)], None))"

text \<open>\<^verbatim>\<open>datos_norm = (datos / datos.iloc[0]) * 100\<close>.\<close>

definition normalizar :: "frame \<Rightarrow> frame" where
  "normalizar datos =
     \<lparr>indice = indice datos,
      columnas = map (\<lambda>c. (fst c, map (\<lambda>x. fmul (fdiv x (primero (snd c))) (Fin 100)) (snd c)))
                   (columnas datos)\<rparr>"

definition pase :: "cliente \<Rightarrow> string list \<Rightarrow> fecha \<Rightarrow> fecha \<Rightarrow> salida list" where
  "pase yf activos_seleccionados fecha_inicio fecha_fin =
     (if activos_seleccionados = [] then [Aviso Sin_seleccion]
      else let d = descargar_datos yf activos_seleccionados fecha_inicio fecha_fin;
               datos = fst d;
               advertencias = map Advertencia (snd d)
           in if vacio datos then advertencias @ [Error_visible Sin_datos_validos]
              else case calcular_metricas datos of
                     Inl e \<Rightarrow> advertencias @ [Excepcion_no_capturada e]
                   | Inr (metricas, retornos) \<Rightarrow>
                       (case resumen_ejecutivo datos metricas of
                          (tarjetas, Some e) \<Rightarrow>
                            advertencias @ tarjetas @ [Excepcion_no_capturada e]
                        | (tarjetas, None) \<Rightarrow>
                            advertencias @ tarjetas @
                            [Grafico_evolucion (normalizar datos),
                             Grafico_riesgo_rendimiento metricas,
                             Tabla_metricas metricas,
                             Grafico_correlacion (corr retornos),
                             Histograma_retornos retornos]))"

text \<open>The outputs that show metrics or charts.\<close>

fun metrica_o_grafico :: "salida \<Rightarrow> bool" where
  "metrica_o_grafico (Tarjeta_activos n) = True"
| "metrica_o_grafico (Tarjeta_mejor t v) = True"
| "metrica_o_grafico (Tarjeta_peor t v) = True"
| "metrica_o_grafico (Tarjeta_sharpe t v) = True"
| "metrica_o_grafico (Tarjeta_dias n) = True"
| "metrica_o_grafico (Tabla_metricas m) = True"
| "metrica_o_grafico (Grafico_evolucion d) = True"
| "metrica_o_grafico (Grafico_riesgo_rendimiento m) = True"
| "metrica_o_grafico (Grafico_correlacion c) = True"
| "metrica_o_grafico (Histograma_retornos r) = True"
| "metrica_o_grafico s = False"

section \<open>Conditions on price tables\<close>

text \<open>No two consecutive cells of the column are both zero.\<close>

fun sin_ceros_consecutivos :: "celda list \<Rightarrow> bool" where
  "sin_ceros_consecutivos (x # y # ys) =
     (\<not> (x = Fin 0 \<and> y = Fin 0) \<and> sin_ceros_consecutivos (y # ys))"
| "sin_ceros_consecutivos xs = True"



text \<open>One instrument whose price is 0 on both of two rows.\<close>

definition precios_0_0 :: frame where
  "precios_0_0 = \<lparr>indice = [0, 1], columnas = [(''A'', [Fin 0, Fin 0])]\<rparr>"

section \<open>Conditions on downloads\<close>

definition nombres :: "frame \<Rightarrow> string list" where
  "nombres df = map fst (columnas df)"

text \<open>
  A download fails when the client raises, returns an empty table, or returns a table
  without a \<^verbatim>\<open>Close\<close> column. It is valid when the table is not empty, has a
  \<^verbatim>\<open>Close\<close> column and no date twice.
\<close>

definition descarga_fallida :: "descarga \<Rightarrow> bool" where
  "descarga_fallida d =
     (case d of Excepcion e \<Rightarrow> True
      | Descargado df \<Rightarrow> vacio df \<or> \<not> tiene_columna df ''Close'')"

definition descarga_valida :: "descarga \<Rightarrow> bool" where
  "descarga_valida d =
     (case d of Excepcion e \<Rightarrow> False
      | Descargado df \<Rightarrow> \<not> vacio df \<and> tiene_columna df ''Close'' \<and> distinct (indice df))"

text \<open>A client that answers every ticker but \<^verbatim>\<open>B\<close> with the closing prices of the days 2 and 3.\<close>

definition cliente_sin_B :: cliente where
  "cliente_sin_B ticker inicio fin =
     (if ticker = ''B'' then Excepcion ''timeout''
      else Descargado \<lparr>indice = [2, 3], columnas = [(''Close'', [Fin 1, Fin 2])]\<rparr>)"

section \<open>Conditions on return series\<close>

text \<open>All the cells of the column are equal to its first cell.\<close>

definition constante :: "celda list \<Rightarrow> bool" where
  "constante xs = list_all (\<lambda>x. x = primero xs) xs"

text \<open>Two return series over three days.\<close>

definition retornos_A_B :: frame where
  "retornos_A_B =
     \<lparr>indice = [2, 3, 4],
      columnas = [(''A'', [Fin (- (1 / 2)), Fin 0, Fin (1 / 2)]),
                  (''B'', [Fin 0, Fin (1 / 2), Fin 0])]\<rparr>"

section \<open>Tables and outputs used as examples\<close>

text \<open>One instrument with the prices 100, 110, 121, and what the program computes for it.\<close>

definition precios_100_110_121 :: frame where
  "precios_100_110_121 =
     \<lparr>indice = [0, 1, 2], columnas = [(''A'', [Fin 100, Fin 110, Fin 121])]\<rparr>"

definition retornos_100_110_121 :: frame where
  "retornos_100_110_121 =
     \<lparr>indice = [1, 2], columnas = [(''A'', [Fin (1 / 10), Fin (1 / 10)])]\<rparr>"

definition metricas_100_110_121 :: "(string \<times> metricas) list" where
  "metricas_100_110_121 =
     [(''A'', \<lparr>precio_inicial = Fin 100, precio_final = Fin 121, rendimiento = Fin 21,
               volatilidad_diaria = Fin 0, volatilidad_anualizada = Fin 0,
               sharpe = PInf, sortino = NaN, var_5 = Fin 10,
               max_retorno = Fin 10, min_retorno = Fin 10, max_drawdown = Fin 0\<rparr>)]"

text \<open>One instrument with the prices 4, 2, 2, 3: its returns are -1/2, 0 and 1/2.\<close>

definition precios_4_2_2_3 :: frame where
  "precios_4_2_2_3 =
     \<lparr>indice = [0, 1, 2, 3], columnas = [(''A'', [Fin 4, Fin 2, Fin 2, Fin 3])]\<rparr>"

definition retornos_4_2_2_3 :: frame where
  "retornos_4_2_2_3 =
     \<lparr>indice = [1, 2, 3], columnas = [(''A'', [Fin (- (1 / 2)), Fin 0, Fin (1 / 2)])]\<rparr>"

definition metricas_4_2_2_3 :: "(string \<times> metricas) list" where
  "metricas_4_2_2_3 =
     [(''A'', \<lparr>precio_inicial = Fin 4, precio_final = Fin 3, rendimiento = Fin (- 25),
               volatilidad_diaria = Fin 50, volatilidad_anualizada = Fin (79373 / 100),
               sharpe = Fin 0, sortino = NaN, var_5 = Fin (- 45),
               max_retorno = Fin 50, min_retorno = Fin (- 50), max_drawdown = Fin 0\<rparr>)]"



section \<open>The statistics in the words of the specification\<close>



text \<open>
  A returned cell \<open>y\<close> is the cell \<open>x\<close> rounded to 2 decimal places: a number becomes a
  whole number of hundredths at most half a hundredth away from it, and a special value
  stays as it is.
\<close>

fun redondeada_a_2 :: "celda \<Rightarrow> celda \<Rightarrow> bool" where
  "redondeada_a_2 (Fin a) (Fin b) = (b * 100 = of_int \<lfloor>b * 100\<rfloor> \<and> \<bar>b - a\<bar> \<le> 1 / 200)"
| "redondeada_a_2 (Fin a) y = False"
| "redondeada_a_2 x y = (y = x)"

text \<open>The eleven columns of the metrics table.\<close>

definition campos :: "(metricas \<Rightarrow> celda) list" where
  "campos =
     [precio_inicial, precio_final, rendimiento, volatilidad_diaria, volatilidad_anualizada,
      sharpe, sortino, var_5, max_retorno, min_retorno, max_drawdown]"

section \<open>More tables used as examples\<close>

text \<open>One instrument with the prices 3, 4, 5: its returns are 1/3 and 1/4.\<close>

definition precios_3_4_5 :: frame where
  "precios_3_4_5 = \<lparr>indice = [0, 1, 2], columnas = [(''A'', [Fin 3, Fin 4, Fin 5])]\<rparr>"




section \<open>Rounding\<close>

lemma rint_of_int [simp]: "rint (of_int k) = k"
  by (simp add: rint_def)

lemma rint_numeral [simp]: "rint (numeral n) = numeral n"
  using rint_of_int [of "numeral n"] by simp

lemma rint_neg_numeral [simp]: "rint (- numeral n) = - numeral n"
  using rint_of_int [of "- numeral n"] by simp

lemma rint_zero [simp]: "rint 0 = 0"
  using rint_of_int [of 0] by simp

lemma rint_error: "\<bar>of_int (rint y) - y\<bar> \<le> 1 / 2"
proof -
  have "of_int \<lfloor>y\<rfloor> \<le> y" "y < of_int \<lfloor>y\<rfloor> + 1" by linarith+
  then show ?thesis
    by (auto simp add: rint_def Let_def)
qed

lemma rint_arriba: "of_int k - 1 / 2 < y \<Longrightarrow> y < of_int k \<Longrightarrow> rint y = k"
proof -
  assume a: "of_int k - 1 / 2 < y" "y < of_int k"
  then have "\<lfloor>y\<rfloor> = k - 1" by linarith
  with a show ?thesis by (simp add: rint_def Let_def)
qed


section \<open>The shape of the result of calcular\_metricas\<close>

lemma length_columnas_dropna [simp]: "length (columnas (dropna df)) = length (columnas df)"
  by (simp add: dropna_def Let_def)

lemma length_columnas_pct_change [simp]:
  "length (columnas (pct_change df)) = length (columnas df)"
  by (simp add: pct_change_def)

lemma length_columnas_retornos [simp]:
  "length (columnas (retornos_de df)) = length (columnas df)"
  by (simp add: retornos_de_def)

lemma length_metricas_sin_redondear [simp]:
  "length (metricas_sin_redondear datos) = length (columnas datos)"
  by (simp add: metricas_sin_redondear_def)

lemma nth_metricas_sin_redondear:
  "i < length (columnas datos) \<Longrightarrow>
   metricas_sin_redondear datos ! i =
     (fst (columnas datos ! i),
      metricas_columna (snd (columnas datos ! i)) (snd (columnas (retornos_de datos) ! i)))"
  by (simp add: metricas_sin_redondear_def)

lemma calcular_metricas_Inr:
  "calcular_metricas datos = Inr (ms, r) \<Longrightarrow>
   r = retornos_de datos \<and>
   ms = map (\<lambda>m. (fst m, round_metricas 2 (snd m))) (metricas_sin_redondear datos)"
  by (auto simp add: calcular_metricas_def Let_def split: if_splits)

lemma nth_metricas_redondeadas:
  assumes "calcular_metricas datos = Inr (ms, r)" and "i < length ms"
  shows "ms ! i = (fst (metricas_sin_redondear datos ! i),
                   round_metricas 2 (snd (metricas_sin_redondear datos ! i)))"
  using assms calcular_metricas_Inr [OF assms(1)] by simp

section \<open>Facts about the column operations\<close>




lemma fmul_escala_conmuta:
  "0 < c \<Longrightarrow> 0 < d \<Longrightarrow> fmul (fmul s (Fin c)) (Fin d) = fmul (fmul s (Fin d)) (Fin c)"
  by (cases s) (auto simp add: mult.assoc mult.commute mult.left_commute)

lemma sin_faltantes_dropna: "sin_faltantes (dropna df)"
  by (auto simp add: sin_faltantes_def dropna_def Let_def fila_completa_def list_all_iff)

lemma columna_retornos_sin_faltantes:
  "i < length (columnas datos) \<Longrightarrow>
   list_all (\<lambda>x. x \<noteq> NaN) (snd (columnas (retornos_de datos) ! i))"
  using sin_faltantes_dropna [of "pct_change datos"]
  by (simp add: sin_faltantes_def retornos_de_def list_all_length)

lemma calcular_metricas_con_filas:
  "indice datos \<noteq> [] \<Longrightarrow>
   calcular_metricas datos =
     Inr (map (\<lambda>m. (fst m, round_metricas 2 (snd m))) (metricas_sin_redondear datos),
          retornos_de datos)"
  by (simp add: calcular_metricas_def)

lemma finita_iff: "finita c \<longleftrightarrow> (\<exists>a. c = Fin a)"
  by (cases c) simp_all

lemma cambio_no_falta:
  "finita x \<Longrightarrow> finita y \<Longrightarrow> \<not> (x = Fin 0 \<and> y = Fin 0) \<Longrightarrow>
   fsub (fdiv y x) (Fin 1) \<noteq> NaN"
  by (cases x; cases y) (auto simp add: fsub_def)

lemma cambios_no_faltan:
  "finita x \<Longrightarrow> list_all finita xs \<Longrightarrow> sin_ceros_consecutivos (x # xs) \<Longrightarrow>
   list_all (\<lambda>c. c \<noteq> NaN)
     (map2 (\<lambda>previo actual. fsub (fdiv actual previo) (Fin 1)) (x # xs) xs)"
proof (induction xs arbitrary: x)
  case Nil
  then show ?case by simp
next
  case (Cons y ys)
  then show ?case by (simp add: cambio_no_falta)
qed

lemma length_pct_change_col [simp]: "length (pct_change_col xs) = length xs"
  by (cases xs) simp_all

lemma pct_change_col_0: "xs \<noteq> [] \<Longrightarrow> pct_change_col xs ! 0 = NaN"
  by (cases xs) simp_all

lemma pct_change_col_resto:
  assumes "list_all finita xs" and "sin_ceros_consecutivos xs" and "0 < i" and "i < length xs"
  shows "pct_change_col xs ! i \<noteq> NaN"
proof (cases xs)
  case Nil
  with assms show ?thesis by simp
next
  case (Cons x ys)
  with assms have "list_all (\<lambda>c. c \<noteq> NaN)
     (map2 (\<lambda>previo actual. fsub (fdiv actual previo) (Fin 1)) (x # ys) ys)"
    by (intro cambios_no_faltan) simp_all
  moreover obtain j where "i = Suc j" using assms(3) by (cases i) simp_all
  ultimately show ?thesis
    using assms(4) Cons by (simp add: list_all_length)
qed

lemma filter_upt_sin_primero:
  assumes "\<not> P 0" and "\<And>i. 0 < i \<Longrightarrow> i < n \<Longrightarrow> P i" and "0 < n"
  shows "filter P [0..<n] = [1..<n]"
proof -
  have "[0..<n] = 0 # [1..<n]" using assms(3) by (simp add: upt_conv_Cons)
  moreover have "filter P [1..<n] = [1..<n]"
    by (rule filter_True) (use assms(2) in auto)
  ultimately show ?thesis using assms(1) by simp
qed

lemma filas_completas_pct_change:
  assumes wf: "wf_frame datos" and cols: "columnas datos \<noteq> []" and filas: "1 \<le> nfilas datos"
    and ok: "list_all (\<lambda>c. list_all finita (snd c) \<and> sin_ceros_consecutivos (snd c)) (columnas datos)"
  shows "filter (fila_completa (pct_change datos)) [0..<length (indice datos)] =
         [1..<length (indice datos)]"
proof -
  let ?pc = "pct_change datos"
  let ?n = "length (indice datos)"
  have len: "\<And>c. c \<in> set (columnas datos) \<Longrightarrow> length (snd c) = ?n"
    using wf by (simp add: wf_frame_def list_all_iff)
  have n: "0 < ?n" using filas by (cases "indice datos") (simp_all add: nfilas_def)
  have no0: "\<not> fila_completa ?pc 0"
  proof -
    obtain c cs where c: "columnas datos = c # cs" using cols by (cases "columnas datos") auto
    then have "snd c \<noteq> []" using len [of c] n by auto
    then show ?thesis
      by (simp add: fila_completa_def pct_change_def c pct_change_col_0)
  qed
  have resto: "fila_completa ?pc i" if "0 < i" "i < ?n" for i
  proof -
    have "pct_change_col (snd c) ! i \<noteq> NaN" if "c \<in> set (columnas datos)" for c
      using that \<open>0 < i\<close> \<open>i < ?n\<close> ok len [of c]
      by (intro pct_change_col_resto) (auto simp add: list_all_iff)
    then show ?thesis
      by (simp add: fila_completa_def pct_change_def list_all_iff)
  qed
  show ?thesis
    using no0 resto n by (rule filter_upt_sin_primero)
qed

lemma nfilas_retornos:
  assumes "wf_frame datos" and "columnas datos \<noteq> []" and "1 \<le> nfilas datos"
    and "list_all (\<lambda>c. list_all finita (snd c) \<and> sin_ceros_consecutivos (snd c)) (columnas datos)"
  shows "nfilas (retornos_de datos) + 1 = nfilas datos"
proof -
  have "nfilas (retornos_de datos) = length (indice datos) - 1"
    using filas_completas_pct_change [OF assms]
    by (simp add: retornos_de_def dropna_def nfilas_def Let_def pct_change_def)
  then show ?thesis using assms(3) by (simp add: nfilas_def)
qed

section \<open>The two worked examples\<close>

lemma upt_3: "[0..<3] = [0, 1, 2]"
  by (simp add: upt_rec)

lemma upt_4: "[0..<4] = [0, 1, 2, 3]"
  by (simp add: upt_rec)

lemma retornos_de_100_110_121: "retornos_de precios_100_110_121 = retornos_100_110_121"
  by (simp add: precios_100_110_121_def retornos_100_110_121_def retornos_de_def dropna_def
      pct_change_def fila_completa_def fsub_def upt_3)

lemma fstd_constante: "fstd [Fin (1 / 10), Fin (1 / 10)] = Fin 0"
  by (simp add: fstd_def validos_def fsub_def Let_def)

lemma fmean_constante: "fmean [Fin (1 / 10), Fin (1 / 10)] = Fin (1 / 10)"
  by (simp add: fmean_def validos_def Let_def)

lemma fstd_sin_negativos: "fstd (retornos_negativos [Fin (1 / 10), Fin (1 / 10)]) = NaN"
  by (simp add: fstd_def retornos_negativos_def validos_def)

lemma quantile_constante: "quantile (1 / 20) [Fin (1 / 10), Fin (1 / 10)] = Fin (1 / 10)"
  by (simp add: quantile_def validos_def ordenar_def Let_def fsub_def)

lemma extremos_constante:
  "fmax [Fin (1 / 10), Fin (1 / 10)] = Fin (1 / 10)"
  "fmin [Fin (1 / 10), Fin (1 / 10)] = Fin (1 / 10)"
  by (simp_all add: fmax_def fmin_def validos_def)

lemma drawdown_constante: "drawdown [Fin (1 / 10), Fin (1 / 10)] = [Fin 0, Fin 0]"
  by (simp add: drawdown_def cumulative_def cumprod_def expanding_max_def fsub_def Let_def)

lemma fmin_ceros: "fmin [Fin 0, Fin 0] = Fin 0" "fmin [Fin 0, Fin 0, Fin 0] = Fin 0"
  by (simp_all add: fmin_def validos_def)

lemma calcular_metricas_100_110_121:
  "calcular_metricas precios_100_110_121 = Inr (metricas_100_110_121, retornos_100_110_121)"
proof -
  have "metricas_sin_redondear precios_100_110_121 =
          [(''A'', metricas_columna [Fin 100, Fin 110, Fin 121] [Fin (1 / 10), Fin (1 / 10)])]"
    by (simp add: metricas_sin_redondear_def retornos_de_100_110_121 retornos_100_110_121_def)
      (simp add: precios_100_110_121_def)
  moreover have "round_metricas 2
      (metricas_columna [Fin 100, Fin 110, Fin 121] [Fin (1 / 10), Fin (1 / 10)]) =
      snd (metricas_100_110_121 ! 0)"
    by (simp add: metricas_columna_def round_metricas_def metricas_100_110_121_def
        primero_def ultimo_def fsub_def fstd_constante fmean_constante fstd_sin_negativos
        quantile_constante extremos_constante drawdown_constante fmin_ceros)
  ultimately show ?thesis
    by (simp add: calcular_metricas_def retornos_de_100_110_121)
      (simp add: precios_100_110_121_def metricas_100_110_121_def)
qed

lemma raiz_252_cotas: "158745 / 10000 < sqrt 252" "sqrt 252 < 158746 / 10000"
proof -
  show "158745 / 10000 < sqrt 252"
    by (rule real_less_rsqrt) (simp add: power2_eq_square)
  show "sqrt 252 < 158746 / 10000"
    by (rule real_less_lsqrt) (simp_all add: power2_eq_square)
qed

lemma rint_5000_raiz_252: "rint (5000 * sqrt 252) = 79373"
  using raiz_252_cotas by (intro rint_arriba) simp_all

lemma retornos_de_4_2_2_3: "retornos_de precios_4_2_2_3 = retornos_4_2_2_3"
  by (simp add: precios_4_2_2_3_def retornos_4_2_2_3_def retornos_de_def dropna_def
      pct_change_def fila_completa_def fsub_def upt_4)

lemma fstd_4_2_2_3: "fstd [Fin (- (1 / 2)), Fin 0, Fin (1 / 2)] = Fin (1 / 2)"
proof -
  have "sqrt (1 / 4) = 1 / 2"
    by (rule real_sqrt_unique) (simp_all add: power2_eq_square)
  then show ?thesis
    by (simp add: fstd_def validos_def fsub_def Let_def)
qed

lemma fmean_4_2_2_3: "fmean [Fin (- (1 / 2)), Fin 0, Fin (1 / 2)] = Fin 0"
  by (simp add: fmean_def validos_def Let_def)

lemma fstd_negativos_4_2_2_3:
  "fstd (retornos_negativos [Fin (- (1 / 2)), Fin 0, Fin (1 / 2)]) = NaN"
  by (simp add: fstd_def retornos_negativos_def validos_def)

lemma quantile_4_2_2_3:
  "quantile (1 / 20) [Fin (- (1 / 2)), Fin 0, Fin (1 / 2)] = Fin (- (9 / 20))"
  by (simp add: quantile_def validos_def ordenar_def Let_def fsub_def)

lemma extremos_4_2_2_3:
  "fmax [Fin (- (1 / 2)), Fin 0, Fin (1 / 2)] = Fin (1 / 2)"
  "fmin [Fin (- (1 / 2)), Fin 0, Fin (1 / 2)] = Fin (- (1 / 2))"
  by (simp_all add: fmax_def fmin_def validos_def)

lemma drawdown_4_2_2_3:
  "drawdown [Fin (- (1 / 2)), Fin 0, Fin (1 / 2)] = [Fin 0, Fin 0, Fin 0]"
  by (simp add: drawdown_def cumulative_def cumprod_def expanding_max_def fsub_def Let_def)

lemma calcular_metricas_4_2_2_3:
  "calcular_metricas precios_4_2_2_3 = Inr (metricas_4_2_2_3, retornos_4_2_2_3)"
proof -
  have "metricas_sin_redondear precios_4_2_2_3 =
          [(''A'', metricas_columna [Fin 4, Fin 2, Fin 2, Fin 3]
                     [Fin (- (1 / 2)), Fin 0, Fin (1 / 2)])]"
    by (simp add: metricas_sin_redondear_def retornos_de_4_2_2_3 retornos_4_2_2_3_def)
      (simp add: precios_4_2_2_3_def)
  moreover have "round_metricas 2
      (metricas_columna [Fin 4, Fin 2, Fin 2, Fin 3] [Fin (- (1 / 2)), Fin 0, Fin (1 / 2)]) =
      snd (metricas_4_2_2_3 ! 0)"
    by (simp add: metricas_columna_def round_metricas_def metricas_4_2_2_3_def
        primero_def ultimo_def fsub_def fstd_4_2_2_3 fmean_4_2_2_3 fstd_negativos_4_2_2_3
        quantile_4_2_2_3 extremos_4_2_2_3 drawdown_4_2_2_3 fmin_ceros rint_5000_raiz_252)
  ultimately show ?thesis
    by (simp add: calcular_metricas_def retornos_de_4_2_2_3)
      (simp add: precios_4_2_2_3_def metricas_4_2_2_3_def)
qed

section \<open>Facts about the rounding of the metrics\<close>

lemma redondeada_fround: "redondeada_a_2 x (fround 2 x)"
proof (cases x)
  case (Fin a)
  have "\<bar>of_int (rint (a * 100)) - a * 100\<bar> \<le> 1 / 2" by (rule rint_error)
  then have "\<bar>of_int (rint (a * 100)) / 100 - a\<bar> \<le> 1 / 200"
    by (simp add: field_simps abs_le_iff)
  then show ?thesis using Fin by simp
qed simp_all

lemma campos_redondeados:
  "list_all (\<lambda>campo. redondeada_a_2 (campo m) (campo (round_metricas 2 m))) campos"
  by (simp add: campos_def round_metricas_def redondeada_fround)


lemma retornos_de_3_4_5:
  "retornos_de precios_3_4_5 =
     \<lparr>indice = [1, 2], columnas = [(''A'', [Fin (1 / 3), Fin (1 / 4)])]\<rparr>"
  by (simp add: precios_3_4_5_def retornos_de_def dropna_def pct_change_def fila_completa_def
      fsub_def upt_3)

lemma rendimiento_3_4_5:
  "rendimiento (snd (metricas_sin_redondear precios_3_4_5 ! 0)) = Fin (200 / 3)"
  by (simp add: metricas_sin_redondear_def retornos_de_3_4_5)
    (simp add: precios_3_4_5_def metricas_columna_def primero_def ultimo_def fsub_def)

lemma rint_20000_tercios: "rint (20000 / 3) = 6667"
  by (rule rint_arriba) simp_all

section \<open>Facts about descargar\_datos\<close>

lemma nombres_dropna [simp]: "nombres (dropna df) = nombres df"
  by (simp add: nombres_def dropna_def Let_def comp_def)

lemma ncolumnas_nombres: "ncolumnas df = length (nombres df)"
  by (simp add: ncolumnas_def nombres_def)

lemma tiene_columna_nombres: "tiene_columna df t \<longleftrightarrow> t \<in> set (nombres df)"
  by (simp add: tiene_columna_def nombres_def)

lemma nombres_poner_columna:
  "nombres (poner_columna df t v) =
     (if t \<in> set (nombres df) then nombres df else nombres df @ [t])"
proof -
  have "map fst (map (\<lambda>c. if fst c = t then (t, v) else c) cs) = map fst cs" for cs
    by (induction cs) auto
  then show ?thesis
    by (simp add: poner_columna_def tiene_columna_def nombres_def)
qed

lemma nombres_asignar:
  "asignar df t s = Inr df' \<Longrightarrow>
   nombres df' = (if t \<in> set (nombres df) then nombres df else nombres df @ [t])"
  by (auto simp add: asignar_def Let_def nombres_poner_columna split: if_splits)
    (simp_all add: nombres_def comp_def)

lemma asignar_sin_repetidos:
  "distinct (map fst s) \<Longrightarrow> \<exists>df'. asignar df t s = Inr df'"
  by (simp add: asignar_def Let_def)

lemma distinct_fechas_columna: "distinct (indice df) \<Longrightarrow> distinct (map fst (columna df n))"
  by (simp add: columna_def map_fst_zip_take split: option.splits)

text \<open>What one turn of the loop does to the column names and to the messages.\<close>

lemma paso_casos:
  "(\<exists>e. paso yf inicio fin t st = (fst st, snd st @ [t @ '': '' @ e])) \<or>
   (\<exists>d. paso yf inicio fin t st = (d, snd st) \<and>
        nombres d = (if t \<in> set (nombres (fst st)) then nombres (fst st)
                     else nombres (fst st) @ [t]))"
  by (auto simp add: paso_def Let_def nombres_asignar split: descarga.splits sum.splits)

lemma paso_fallida:
  "descarga_fallida (yf t inicio fin) \<Longrightarrow>
   \<exists>e. paso yf inicio fin t st = (fst st, snd st @ [t @ '': '' @ e])"
  by (auto simp add: paso_def Let_def descarga_fallida_def split: descarga.splits)

lemma paso_valida:
  assumes "descarga_valida (yf t inicio fin)"
  shows "\<exists>d. paso yf inicio fin t st = (d, snd st) \<and>
        nombres d = (if t \<in> set (nombres (fst st)) then nombres (fst st)
                     else nombres (fst st) @ [t])"
proof -
  from assms obtain df where df: "yf t inicio fin = Descargado df" "\<not> vacio df"
    "tiene_columna df ''Close''" "distinct (indice df)"
    by (auto simp add: descarga_valida_def split: descarga.splits)
  obtain d where d: "asignar (fst st) t (columna df ''Close'') = Inr d"
    using asignar_sin_repetidos [OF distinct_fechas_columna [OF df(4)]] by blast
  then show ?thesis
    using df nombres_asignar [OF d] by (simp add: paso_def Let_def)
qed


lemma bucle_particion:
  assumes "distinct ts"
    and "set ts \<inter> (set (map fst fallos) \<union> set (nombres (fst st))) = {}"
    and "snd st = map (\<lambda>p. fst p @ '': '' @ snd p) fallos"
    and "distinct (map fst fallos @ nombres (fst st))"
  shows "\<exists>fallos'. snd (bucle yf inicio fin ts st) = map (\<lambda>p. fst p @ '': '' @ snd p) fallos' \<and>
           distinct (map fst fallos' @ nombres (fst (bucle yf inicio fin ts st))) \<and>
           set (map fst fallos') \<union> set (nombres (fst (bucle yf inicio fin ts st))) =
             set (map fst fallos) \<union> set (nombres (fst st)) \<union> set ts"
  using assms
proof (induction ts arbitrary: st fallos)
  case Nil
  then show ?case by auto
next
  case (Cons t ts)
  let ?st = "paso yf inicio fin t st"
  have nuevo: "t \<notin> set (map fst fallos)" "t \<notin> set (nombres (fst st))"
    using Cons.prems(2) by auto
  from paso_casos [of yf inicio fin t st]
  consider (falla) e where "?st = (fst st, snd st @ [t @ '': '' @ e])"
    | (columna) d where "?st = (d, snd st)" "nombres d = nombres (fst st) @ [t]"
    using nuevo by auto
  then show ?case
  proof cases
    case falla
    let ?f = "fallos @ [(t, e)]"
    have "\<exists>fallos'. snd (bucle yf inicio fin ts ?st) = map (\<lambda>p. fst p @ '': '' @ snd p) fallos' \<and>
           distinct (map fst fallos' @ nombres (fst (bucle yf inicio fin ts ?st))) \<and>
           set (map fst fallos') \<union> set (nombres (fst (bucle yf inicio fin ts ?st))) =
             set (map fst ?f) \<union> set (nombres (fst ?st)) \<union> set ts"
    proof (rule Cons.IH)
      show "distinct ts" using Cons.prems(1) by simp
      show "set ts \<inter> (set (map fst ?f) \<union> set (nombres (fst ?st))) = {}"
        using Cons.prems(1,2) falla by auto
      show "snd ?st = map (\<lambda>p. fst p @ '': '' @ snd p) ?f"
        using Cons.prems(3) falla by simp
      show "distinct (map fst ?f @ nombres (fst ?st))"
        using Cons.prems(4) nuevo falla by auto
    qed
    then show ?thesis using falla by auto
  next
    case columna
    have "\<exists>fallos'. snd (bucle yf inicio fin ts ?st) = map (\<lambda>p. fst p @ '': '' @ snd p) fallos' \<and>
           distinct (map fst fallos' @ nombres (fst (bucle yf inicio fin ts ?st))) \<and>
           set (map fst fallos') \<union> set (nombres (fst (bucle yf inicio fin ts ?st))) =
             set (map fst fallos) \<union> set (nombres (fst ?st)) \<union> set ts"
    proof (rule Cons.IH)
      show "distinct ts" using Cons.prems(1) by simp
      show "set ts \<inter> (set (map fst fallos) \<union> set (nombres (fst ?st))) = {}"
        using Cons.prems(1,2) columna by auto
      show "snd ?st = map (\<lambda>p. fst p @ '': '' @ snd p) fallos"
        using Cons.prems(3) columna by simp
      show "distinct (map fst fallos @ nombres (fst ?st))"
        using Cons.prems(4) nuevo columna by auto
    qed
    then show ?thesis using columna by auto
  qed
qed

lemma ensamblar_particion:
  assumes "distinct tickers"
  shows "\<exists>fallos. snd (ensamblar yf tickers inicio fin) = map (\<lambda>p. fst p @ '': '' @ snd p) fallos \<and>
           distinct (map fst fallos @ nombres (fst (ensamblar yf tickers inicio fin))) \<and>
           set (map fst fallos) \<union> set (nombres (fst (ensamblar yf tickers inicio fin))) =
             set tickers"
  using bucle_particion [of tickers "[]" "(\<lparr>indice = [], columnas = []\<rparr>, [])" yf inicio fin] assms
  by (simp add: ensamblar_def nombres_def)

lemma ensamblar_cuenta:
  assumes "distinct tickers"
  shows "ncolumnas (fst (ensamblar yf tickers inicio fin)) +
         length (snd (ensamblar yf tickers inicio fin)) = length tickers"
proof -
  from ensamblar_particion [OF assms] obtain fallos where
    f: "snd (ensamblar yf tickers inicio fin) = map (\<lambda>p. fst p @ '': '' @ snd p) fallos"
      "distinct (map fst fallos @ nombres (fst (ensamblar yf tickers inicio fin)))"
      "set (map fst fallos) \<union> set (nombres (fst (ensamblar yf tickers inicio fin))) = set tickers"
    by blast
  have "length (map fst fallos @ nombres (fst (ensamblar yf tickers inicio fin))) =
        card (set (map fst fallos @ nombres (fst (ensamblar yf tickers inicio fin))))"
    using f(2) by (rule distinct_card [symmetric])
  also have "\<dots> = card (set tickers)" using f(3) by simp
  also have "\<dots> = length tickers" using assms by (rule distinct_card)
  finally show ?thesis using f(1) by (simp add: ncolumnas_nombres)
qed


lemma nombres_paso: "set (nombres (fst st)) \<subseteq> set (nombres (fst (paso yf inicio fin t st)))"
  using paso_casos [of yf inicio fin t st] by auto

lemma nombres_paso_cota:
  "set (nombres (fst (paso yf inicio fin t st))) \<subseteq> insert t (set (nombres (fst st)))"
  using paso_casos [of yf inicio fin t st] by (auto split: if_splits)

lemma errores_paso: "set (snd st) \<subseteq> set (snd (paso yf inicio fin t st))"
  using paso_casos [of yf inicio fin t st] by auto

lemma nombres_bucle:
  "set (nombres (fst st)) \<subseteq> set (nombres (fst (bucle yf inicio fin ts st)))"
proof (induction ts arbitrary: st)
  case Nil
  show ?case by simp
next
  case (Cons t ts)
  show ?case using nombres_paso [of st yf inicio fin t] Cons [of "paso yf inicio fin t st"] by auto
qed

lemma nombres_bucle_cota:
  "set (nombres (fst (bucle yf inicio fin ts st))) \<subseteq> set (nombres (fst st)) \<union> set ts"
proof (induction ts arbitrary: st)
  case Nil
  show ?case by simp
next
  case (Cons t ts)
  show ?case
    using nombres_paso_cota [of yf inicio fin t st] Cons [of "paso yf inicio fin t st"] by auto
qed

lemma errores_bucle: "set (snd st) \<subseteq> set (snd (bucle yf inicio fin ts st))"
proof (induction ts arbitrary: st)
  case Nil
  show ?case by simp
next
  case (Cons t ts)
  show ?case using errores_paso [of st yf inicio fin t] Cons [of "paso yf inicio fin t st"] by auto
qed

lemma bucle_valida:
  assumes "t \<in> set ts" and "descarga_valida (yf t inicio fin)"
  shows "t \<in> set (nombres (fst (bucle yf inicio fin ts st)))"
  using assms(1)
proof (induction ts arbitrary: st)
  case Nil
  then show ?case by simp
next
  case (Cons u us)
  show ?case
  proof (cases "u = t")
    case True
    have "t \<in> set (nombres (fst (paso yf inicio fin t st)))"
      using paso_valida [of yf t inicio fin st] assms(2) by (auto split: if_splits)
    then show ?thesis
      using True nombres_bucle [of "paso yf inicio fin t st" yf inicio fin us] by auto
  next
    case False
    then have "t \<in> set us" using Cons.prems by simp
    then show ?thesis using Cons.IH by simp
  qed
qed

lemma bucle_fallida:
  assumes "descarga_fallida (yf t inicio fin)"
  shows "t \<in> set ts \<Longrightarrow> distinct ts \<Longrightarrow> t \<notin> set (nombres (fst st)) \<Longrightarrow>
         t \<notin> set (nombres (fst (bucle yf inicio fin ts st))) \<and>
         (\<exists>e. t @ '': '' @ e \<in> set (snd (bucle yf inicio fin ts st)))"
proof (induction ts arbitrary: st)
  case Nil
  then show ?case by simp
next
  case (Cons u us)
  show ?case
  proof (cases "u = t")
    case True
    from paso_fallida [of yf t inicio fin st] assms obtain e where
      e: "paso yf inicio fin t st = (fst st, snd st @ [t @ '': '' @ e])" by blast
    have "t \<notin> set us" using Cons.prems(2) True by simp
    then have "t \<notin> set (nombres (fst (bucle yf inicio fin us (paso yf inicio fin t st))))"
      using nombres_bucle_cota [of yf inicio fin us "paso yf inicio fin t st"] e Cons.prems(3)
      by auto
    moreover have "t @ '': '' @ e \<in> set (snd (bucle yf inicio fin us (paso yf inicio fin t st)))"
      using errores_bucle [of "paso yf inicio fin t st" yf inicio fin us] e by auto
    ultimately show ?thesis using True by auto
  next
    case False
    then have "t \<in> set us" "distinct us" using Cons.prems by simp_all
    moreover have "t \<notin> set (nombres (fst (paso yf inicio fin u st)))"
      using nombres_paso_cota [of yf inicio fin u st] False Cons.prems(3) by auto
    ultimately show ?thesis using Cons.IH by simp
  qed
qed

lemma ensamblar_valida:
  "t \<in> set tickers \<Longrightarrow> descarga_valida (yf t inicio fin) \<Longrightarrow>
   t \<in> set (nombres (fst (ensamblar yf tickers inicio fin)))"
  by (simp add: ensamblar_def bucle_valida)

lemma ensamblar_fallida:
  "t \<in> set tickers \<Longrightarrow> distinct tickers \<Longrightarrow> descarga_fallida (yf t inicio fin) \<Longrightarrow>
   t \<notin> set (nombres (fst (ensamblar yf tickers inicio fin))) \<and>
   (\<exists>e. t @ '': '' @ e \<in> set (snd (ensamblar yf tickers inicio fin)))"
  unfolding ensamblar_def by (rule bucle_fallida) (simp_all add: nombres_def)

lemma ensamblar_uno_de_tres:
  assumes d: "distinct tickers" and n: "length tickers = 3"
    and f: "length (filter (\<lambda>t. descarga_fallida (yf t inicio fin)) tickers) = 1"
    and v: "length (filter (\<lambda>t. descarga_valida (yf t inicio fin)) tickers) = 2"
  shows "ncolumnas (fst (ensamblar yf tickers inicio fin)) = 2 \<and>
         length (snd (ensamblar yf tickers inicio fin)) = 1"
proof -
  let ?N = "nombres (fst (ensamblar yf tickers inicio fin))"
  let ?F = "filter (\<lambda>t. descarga_fallida (yf t inicio fin)) tickers"
  let ?V = "filter (\<lambda>t. descarga_valida (yf t inicio fin)) tickers"
  from ensamblar_particion [OF d, of yf inicio fin] have dn: "distinct ?N" and sub: "set ?N \<subseteq> set tickers"
    by auto
  have "set ?V \<subseteq> set ?N" using ensamblar_valida [of _ tickers yf inicio fin] by auto
  then have "card (set ?V) \<le> card (set ?N)" by (intro card_mono) simp_all
  moreover have "card (set ?V) = length ?V" by (rule distinct_card) (use d in simp)
  ultimately have lo: "2 \<le> length ?N" using dn v distinct_card [of ?N] by simp
  have "set ?N \<subseteq> set tickers - set ?F"
    using sub ensamblar_fallida [of _ tickers yf inicio fin] d by auto
  then have "card (set ?N) \<le> card (set tickers - set ?F)" by (intro card_mono) simp_all
  moreover have "card (set tickers - set ?F) = card (set tickers) - card (set ?F)"
    by (intro card_Diff_subset) auto
  moreover have "card (set tickers) = length tickers" using d by (rule distinct_card)
  moreover have "card (set ?F) = length ?F" by (rule distinct_card) (use d in simp)
  ultimately have hi: "length ?N \<le> 2" using dn n f distinct_card [of ?N] by simp
  from lo hi have "length ?N = 2" by simp
  then show ?thesis using ensamblar_cuenta [OF d, of yf inicio fin] n
    by (simp add: ncolumnas_nombres)
qed

lemma paso_cliente_sin_B:
  "t \<noteq> ''B'' \<Longrightarrow>
   paso cliente_sin_B 2 4 t (\<lparr>indice = [], columnas = []\<rparr>, es) =
     (\<lparr>indice = [2, 3], columnas = [(t, [Fin 1, Fin 2])]\<rparr>, es)"
  "t \<noteq> ''B'' \<Longrightarrow>
   paso cliente_sin_B 2 4 t (\<lparr>indice = [2, 3], columnas = [(''A'', [Fin 1, Fin 2])]\<rparr>, es) =
     (poner_columna \<lparr>indice = [2, 3], columnas = [(''A'', [Fin 1, Fin 2])]\<rparr> t [Fin 1, Fin 2], es)"
  "paso cliente_sin_B 2 4 ''B'' (d, es) = (d, es @ [''B: timeout''])"
  by (simp_all add: paso_def cliente_sin_B_def vacio_def tiene_columna_def columna_def
      asignar_def poner_columna_def)

lemma ensamblar_A_B_C:
  "ensamblar cliente_sin_B [''A'', ''B'', ''C''] 2 4 =
     (\<lparr>indice = [2, 3], columnas = [(''A'', [Fin 1, Fin 2]), (''C'', [Fin 1, Fin 2])]\<rparr>,
      [''B: timeout''])"
  by (simp add: ensamblar_def paso_cliente_sin_B poner_columna_def tiene_columna_def)

lemma dropna_A_C:
  "dropna \<lparr>indice = [2, 3], columnas = [(''A'', [Fin 1, Fin 2]), (''C'', [Fin 1, Fin 2])]\<rparr> =
   \<lparr>indice = [2, 3], columnas = [(''A'', [Fin 1, Fin 2]), (''C'', [Fin 1, Fin 2])]\<rparr>"
  by (simp add: dropna_def fila_completa_def upt_rec [of 0] upt_rec [of 1])

lemma cliente_sin_B_estados:
  "descarga_fallida (cliente_sin_B ''B'' 2 4)"
  "descarga_valida (cliente_sin_B ''A'' 2 4)"
  "descarga_valida (cliente_sin_B ''C'' 2 4)"
  "\<not> descarga_fallida (cliente_sin_B ''A'' 2 4)"
  "\<not> descarga_fallida (cliente_sin_B ''C'' 2 4)"
  "\<not> descarga_valida (cliente_sin_B ''B'' 2 4)"
  by (simp_all add: descarga_fallida_def descarga_valida_def cliente_sin_B_def vacio_def
      tiene_columna_def)

section \<open>Facts about the correlation matrix\<close>

lemma fmul_conmuta: "fmul a b = fmul b a"
  by (cases a; cases b) (simp_all add: mult.commute)

lemma zip_intercambio: "zip y x = map (\<lambda>p. (snd p, fst p)) (zip x y)"
  by (induction x arbitrary: y) (case_tac y; simp)+

lemma pares_intercambio:
  "filter (\<lambda>p. finita (fst p) \<and> finita (snd p)) (zip y x) =
   map (\<lambda>p. (snd p, fst p)) (filter (\<lambda>p. finita (fst p) \<and> finita (snd p)) (zip x y))"
  by (subst zip_intercambio) (simp add: filter_map comp_def conj_commute)

lemma corr_par_simetrica: "corr_par x y = corr_par y x"
  by (simp add: corr_par_def pares_intercambio [of x y] Let_def comp_def fmul_conmuta [of "fsum _" "fsum _"]
      fmul_conmuta [of "fsub (snd _) _" "fsub (fst _) _"])


lemma finitas_reales: "list_all finita xs \<Longrightarrow> \<exists>rs. xs = map Fin rs"
proof (induction xs)
  case Nil
  then show ?case by simp
next
  case (Cons x xs)
  then obtain rs where "xs = map Fin rs" by auto
  moreover obtain a where "x = Fin a" using Cons.prems by (cases x) simp_all
  ultimately have "x # xs = map Fin (a # rs)" by simp
  then show ?case by (rule exI)
qed

lemma fsum_reales: "fsum (map Fin rs) = Fin (sum_list rs)"
  by (induction rs) simp_all

lemma fsum_map_reales: "fsum (map (\<lambda>r. Fin (f r)) rs) = Fin (sum_list (map f rs))"
  by (induction rs) simp_all

lemma pares_diagonal:
  "filter (\<lambda>p. finita (fst p) \<and> finita (snd p)) (zip (map Fin rs) (map Fin rs)) =
   map (\<lambda>r. (Fin r, Fin r)) rs"
  by (induction rs) simp_all

lemma suma_cuadrados_cero:
  "sum_list (map (\<lambda>r. (r - m) * (r - m)) rs) = 0 \<longleftrightarrow> (\<forall>r \<in> set rs. r = (m::real))"
proof -
  have "sum_list (map (\<lambda>r. (r - m) * (r - m)) rs) = 0 \<longleftrightarrow>
        (\<forall>x \<in> set (map (\<lambda>r. (r - m) * (r - m)) rs). x = 0)"
    by (rule sum_list_nonneg_eq_0_iff) auto
  then show ?thesis by auto
qed

lemma suma_cuadrados_no_negativa: "0 \<le> sum_list (map (\<lambda>r. (r - m) * (r - m)) rs)" for m :: real
  by (rule sum_list_nonneg) auto

lemma corr_par_diagonal_reales:
  assumes "rs \<noteq> []"
  shows "corr_par (map Fin rs) (map Fin rs) =
     (if sum_list (map (\<lambda>r. (r - sum_list rs / real (length rs)) * (r - sum_list rs / real (length rs))) rs) = 0
      then NaN else Fin 1)"
proof -
  let ?m = "sum_list rs / real (length rs)"
  let ?S = "sum_list (map (\<lambda>r. (r - ?m) * (r - ?m)) rs)"
  have n: "real (length rs) \<noteq> 0" using assms by simp
  have S: "0 \<le> ?S" by (rule suma_cuadrados_no_negativa)
  have raiz: "sqrt (?S * ?S) = ?S" using S by simp
  show ?thesis
    using assms n S
    by (simp add: corr_par_def pares_diagonal Let_def comp_def fsum_reales fsub_def
        fsum_map_reales raiz recortar_def del: real_sqrt_mult_self)
qed


lemma media_constante:
  assumes "rs \<noteq> []" and "\<forall>r \<in> set rs. r = (c::real)"
  shows "sum_list rs / real (length rs) = c"
proof -
  have "map (\<lambda>r. r) rs = map (\<lambda>r. c) rs" using assms(2) by (intro map_cong) simp_all
  then have "sum_list rs = (\<Sum>r\<leftarrow>rs. c)" by simp
  also have "\<dots> = real (length rs) * c" by (simp add: sum_list_triv)
  finally show ?thesis using assms(1) by simp
qed

lemma constante_reales:
  assumes "rs \<noteq> []"
  shows "constante (map Fin rs) \<longleftrightarrow> (\<forall>r \<in> set rs. r = sum_list rs / real (length rs))"
proof
  assume "constante (map Fin rs)"
  then have c: "\<forall>r \<in> set rs. r = hd rs"
    using assms by (cases rs) (auto simp add: constante_def primero_def list_all_iff)
  from media_constante [OF assms c] c show "\<forall>r \<in> set rs. r = sum_list rs / real (length rs)"
    by simp
next
  assume "\<forall>r \<in> set rs. r = sum_list rs / real (length rs)"
  then have "\<forall>r \<in> set rs. r = hd rs" using assms by (cases rs) auto
  then show "constante (map Fin rs)"
    using assms by (cases rs) (auto simp add: constante_def primero_def list_all_iff)
qed

lemma corr_par_diagonal:
  assumes "list_all finita xs" and "xs \<noteq> []"
  shows "corr_par xs xs = (if constante xs then NaN else Fin 1)"
proof -
  from finitas_reales [OF assms(1)] obtain rs where rs: "xs = map Fin rs" by blast
  then have "rs \<noteq> []" using assms(2) by simp
  then show ?thesis
    using corr_par_diagonal_reales [of rs] constante_reales [of rs]
      suma_cuadrados_cero [of "sum_list rs / real (length rs)" rs]
    by (simp add: rs)
qed

lemma entrada_corr:
  "i < ncolumnas df \<Longrightarrow> j < ncolumnas df \<Longrightarrow>
   entrada (corr df) i j = corr_par (snd (columnas df ! i)) (snd (columnas df ! j))"
  by (simp add: entrada_def corr_def ncolumnas_def)

lemma no_constante_no_vacia: "\<not> constante xs \<Longrightarrow> xs \<noteq> []"
  by (auto simp add: constante_def)

section \<open>Facts about the drawdown\<close>

























section \<open>The cumulative path in terms of the prices\<close>











section \<open>Facts about the mean and the standard deviation\<close>



lemma fdiv_NaN_derecha [simp]: "fdiv x NaN = NaN"
  by (cases x) simp_all








section \<open>Claims about calcular\_metricas\<close>

text \<open>
  C4. For the price series 100, 110, 121 of one instrument \<^verbatim>\<open>calcular_metricas\<close> does not
  raise: it returns the returns series 0.10, 0.10, a total return of 21 percent, a daily
  volatility of 0, and as Sharpe ratio the non-finite marker plus infinity (the mean
  return 0.10 divided by the zero standard deviation).
\<close>

theorem C4_ejemplo_100_110_121:
  "calcular_metricas precios_100_110_121 =
     Inr ([(''A'', \<lparr>precio_inicial = Fin 100, precio_final = Fin 121, rendimiento = Fin 21,
                    volatilidad_diaria = Fin 0, volatilidad_anualizada = Fin 0,
                    sharpe = PInf, sortino = NaN, var_5 = Fin 10,
                    max_retorno = Fin 10, min_retorno = Fin 10, max_drawdown = Fin 0\<rparr>)],
          \<lparr>indice = [1, 2], columnas = [(''A'', [Fin (1 / 10), Fin (1 / 10)])]\<rparr>)"
  using calcular_metricas_100_110_121
  by (simp add: metricas_100_110_121_def retornos_100_110_121_def)

text \<open>
  C9. Every value of the metrics table is rounded to 2 decimal places before it is
  returned: for every instrument and every one of the eleven metrics, the cell returned is
  a whole number of hundredths at most 0.005 (half of the last digit kept) away from the
  value that the formula gave before the rounding (both taken as exact numbers), and NaN
  and the infinities stay as they are. The returns table is returned as \<^verbatim>\<open>pct_change().dropna()\<close> computed it, not rounded.
\<close>

theorem C9_redondeo:
  assumes "calcular_metricas datos = Inr (ms, retornos)" and "i < length ms"
  shows "list_all (\<lambda>campo. redondeada_a_2 (campo (snd (metricas_sin_redondear datos ! i)))
                                          (campo (snd (ms ! i)))) campos \<and>
         fst (ms ! i) = fst (columnas datos ! i) \<and>
         length ms = length (columnas datos) \<and>
         retornos = dropna (pct_change datos)"
proof -
  have n: "i < length (columnas datos)"
    using assms calcular_metricas_Inr [OF assms(1)] by simp
  show ?thesis
    using nth_metricas_redondeadas [OF assms] calcular_metricas_Inr [OF assms(1)]
      campos_redondeados [of "snd (metricas_sin_redondear datos ! i)"]
    by (simp add: nth_metricas_sin_redondear [OF n] retornos_de_def)
qed

theorem C9_redondeo_witness:
  "calcular_metricas precios_3_4_5 =
     Inr (map (\<lambda>m. (fst m, round_metricas 2 (snd m))) (metricas_sin_redondear precios_3_4_5),
          \<lparr>indice = [1, 2], columnas = [(''A'', [Fin (1 / 3), Fin (1 / 4)])]\<rparr>) \<and>
   list_all (\<lambda>campo. redondeada_a_2 (campo (snd (metricas_sin_redondear precios_3_4_5 ! 0)))
       (campo (snd (map (\<lambda>m. (fst m, round_metricas 2 (snd m)))
                      (metricas_sin_redondear precios_3_4_5) ! 0)))) campos \<and>
   rendimiento (snd (metricas_sin_redondear precios_3_4_5 ! 0)) = Fin (200 / 3) \<and>
   rendimiento (snd (map (\<lambda>m. (fst m, round_metricas 2 (snd m)))
                      (metricas_sin_redondear precios_3_4_5) ! 0)) = Fin (6667 / 100) \<and>
   dropna (pct_change precios_3_4_5) =
     \<lparr>indice = [1, 2], columnas = [(''A'', [Fin (1 / 3), Fin (1 / 4)])]\<rparr>"
proof -
  have c: "calcular_metricas precios_3_4_5 =
     Inr (map (\<lambda>m. (fst m, round_metricas 2 (snd m))) (metricas_sin_redondear precios_3_4_5),
          \<lparr>indice = [1, 2], columnas = [(''A'', [Fin (1 / 3), Fin (1 / 4)])]\<rparr>)"
    using calcular_metricas_con_filas [of precios_3_4_5]
    by (simp add: retornos_de_3_4_5) (simp add: precios_3_4_5_def)
  have l: "0 < length (map (\<lambda>m. (fst m, round_metricas 2 (snd m)))
                      (metricas_sin_redondear precios_3_4_5))"
    by (simp add: precios_3_4_5_def)
  have r: "rendimiento (snd (map (\<lambda>m. (fst m, round_metricas 2 (snd m)))
                      (metricas_sin_redondear precios_3_4_5) ! 0)) = Fin (6667 / 100)"
    using rendimiento_3_4_5
    by (simp add: precios_3_4_5_def round_metricas_def rint_20000_tercios)
  from C9_redondeo [OF c l] c r rendimiento_3_4_5 show ?thesis by simp
qed

text \<open>
  C2, as stated, fails on the table that is returned: the two volatilities are rounded to
  2 decimals independently. For the prices 4, 2, 2, 3 the daily volatility returned is 50
  and the annualized volatility returned is 793.73, which is not 50 times the square root
  of 252 (793.7253...).
\<close>

theorem C2_counterexample:
  "calcular_metricas precios_4_2_2_3 = Inr (metricas_4_2_2_3, retornos_4_2_2_3) \<and>
   volatilidad_diaria (snd (metricas_4_2_2_3 ! 0)) = Fin 50 \<and>
   volatilidad_anualizada (snd (metricas_4_2_2_3 ! 0)) = Fin (79373 / 100) \<and>
   volatilidad_anualizada (snd (metricas_4_2_2_3 ! 0)) \<noteq>
     fmul (volatilidad_diaria (snd (metricas_4_2_2_3 ! 0))) (Fin (sqrt 252))"
  using calcular_metricas_4_2_2_3 raiz_252_cotas
  by (simp add: metricas_4_2_2_3_def)

text \<open>
  C2, amended. For every instrument, before the final rounding the annualized volatility
  equals the daily volatility multiplied by the square root of 252 (in exact arithmetic);
  the table returned holds each of the two values rounded to 2 decimals.
\<close>

theorem C2_volatilidad_anualizada:
  assumes "calcular_metricas datos = Inr (ms, retornos)" and "i < length ms"
  shows "volatilidad_anualizada (snd (metricas_sin_redondear datos ! i)) =
           fmul (volatilidad_diaria (snd (metricas_sin_redondear datos ! i))) (Fin (sqrt 252)) \<and>
         volatilidad_anualizada (snd (ms ! i)) =
           fround 2 (volatilidad_anualizada (snd (metricas_sin_redondear datos ! i))) \<and>
         volatilidad_diaria (snd (ms ! i)) =
           fround 2 (volatilidad_diaria (snd (metricas_sin_redondear datos ! i)))"
proof -
  have n: "i < length (columnas datos)"
    using assms calcular_metricas_Inr [OF assms(1)] by simp
  have "fmul (fmul s (Fin (sqrt 252))) (Fin 100) = fmul (fmul s (Fin 100)) (Fin (sqrt 252))" for s
    by (rule fmul_escala_conmuta) simp_all
  then show ?thesis
    using nth_metricas_redondeadas [OF assms]
    by (simp add: nth_metricas_sin_redondear [OF n] metricas_columna_def round_metricas_def)
qed

theorem C2_volatilidad_anualizada_witness:
  "volatilidad_anualizada (snd (metricas_sin_redondear precios_4_2_2_3 ! 0)) =
     fmul (volatilidad_diaria (snd (metricas_sin_redondear precios_4_2_2_3 ! 0))) (Fin (sqrt 252)) \<and>
   volatilidad_anualizada (snd (metricas_4_2_2_3 ! 0)) =
     fround 2 (volatilidad_anualizada (snd (metricas_sin_redondear precios_4_2_2_3 ! 0))) \<and>
   volatilidad_diaria (snd (metricas_4_2_2_3 ! 0)) =
     fround 2 (volatilidad_diaria (snd (metricas_sin_redondear precios_4_2_2_3 ! 0)))"
proof -
  have "0 < length metricas_4_2_2_3" by (simp add: metricas_4_2_2_3_def)
  from C2_volatilidad_anualizada [OF calcular_metricas_4_2_2_3 this] show ?thesis .
qed



text \<open>
  C1, amended. For every price table with at least one instrument, at least 2 rows, finite
  prices and no instrument priced 0 on two consecutive rows, \<^verbatim>\<open>calcular_metricas\<close> returns
  a returns table with exactly one row fewer than the price table and no missing value.
\<close>

theorem C1_retornos_una_fila_menos:
  assumes "wf_frame datos" and "columnas datos \<noteq> []" and "2 \<le> nfilas datos"
    and "list_all (\<lambda>c. list_all finita (snd c) \<and> sin_ceros_consecutivos (snd c)) (columnas datos)"
  shows "\<exists>ms retornos. calcular_metricas datos = Inr (ms, retornos) \<and>
           nfilas retornos + 1 = nfilas datos \<and> sin_faltantes retornos"
proof -
  have "indice datos \<noteq> []" using assms(3) by (auto simp add: nfilas_def)
  moreover have "nfilas (retornos_de datos) + 1 = nfilas datos"
    using assms by (intro nfilas_retornos) simp_all
  moreover have "sin_faltantes (retornos_de datos)"
    by (simp add: retornos_de_def sin_faltantes_dropna)
  ultimately show ?thesis
    by (simp add: calcular_metricas_con_filas)
qed

theorem C1_retornos_una_fila_menos_witness:
  "calcular_metricas precios_100_110_121 = Inr (metricas_100_110_121, retornos_100_110_121) \<and>
   nfilas retornos_100_110_121 + 1 = nfilas precios_100_110_121 \<and>
   sin_faltantes retornos_100_110_121"
proof -
  have "wf_frame precios_100_110_121" "columnas precios_100_110_121 \<noteq> []"
    "2 \<le> nfilas precios_100_110_121"
    "list_all (\<lambda>c. list_all finita (snd c) \<and> sin_ceros_consecutivos (snd c))
       (columnas precios_100_110_121)"
    by (simp_all add: precios_100_110_121_def wf_frame_def nfilas_def)
  from C1_retornos_una_fila_menos [OF this] show ?thesis
    by (simp add: calcular_metricas_100_110_121)
qed

text \<open>
  C1, as stated, fails: a price of 0 followed by a price of 0 gives the return 0/0, which is
  missing, and \<^verbatim>\<open>dropna\<close> removes that row too. The table with the prices 0, 0 has 2 rows
  and no missing value, and its returns table has no row.
\<close>

theorem C1_counterexample:
  "wf_frame precios_0_0 \<and> nfilas precios_0_0 = 2 \<and> sin_faltantes precios_0_0 \<and>
   calcular_metricas precios_0_0 =
     Inr (map (\<lambda>m. (fst m, round_metricas 2 (snd m))) (metricas_sin_redondear precios_0_0),
          \<lparr>indice = [], columnas = [(''A'', [])]\<rparr>) \<and>
   nfilas \<lparr>indice = [], columnas = [(''A'', [])]\<rparr> + 1 \<noteq> nfilas precios_0_0"
  by (simp add: precios_0_0_def wf_frame_def nfilas_def sin_faltantes_def calcular_metricas_def
      retornos_de_def dropna_def pct_change_def fila_completa_def fsub_def upt_rec [of 0]
      upt_rec [of 1])

section \<open>Claims about descargar\_datos and the render pass\<close>

text \<open>
  C10. The batch of requested tickers is a set of ticker symbols: the selection of the
  multiselect widget, a list in which no ticker occurs twice. Every requested ticker
  contributes exactly one of a column of the assembled table (before the incomplete rows
  are dropped) or a recorded warning of the form \<^verbatim>\<open>ticker: text\<close>, never both and never
  neither; hence the number of columns plus the number of warnings is the number of
  requested tickers.
\<close>

theorem C10_columna_o_advertencia:
  assumes "distinct tickers"
  shows "ncolumnas (fst (ensamblar yf tickers inicio fin)) +
           length (snd (descargar_datos yf tickers inicio fin)) = length tickers \<and>
         (\<exists>fallos.
            snd (descargar_datos yf tickers inicio fin) =
              map (\<lambda>p. fst p @ '': '' @ snd p) fallos \<and>
            distinct (map fst fallos @ nombres (fst (ensamblar yf tickers inicio fin))) \<and>
            set (map fst fallos) \<union> set (nombres (fst (ensamblar yf tickers inicio fin))) =
              set tickers)"
  using ensamblar_cuenta [OF assms, of yf inicio fin] ensamblar_particion [OF assms, of yf inicio fin]
  by (simp add: descargar_datos_def Let_def)

theorem C10_columna_o_advertencia_witness:
  "ncolumnas (fst (ensamblar cliente_sin_B [''A'', ''B'', ''C''] 2 4)) +
     length (snd (descargar_datos cliente_sin_B [''A'', ''B'', ''C''] 2 4)) = 3 \<and>
   nombres (fst (ensamblar cliente_sin_B [''A'', ''B'', ''C''] 2 4)) = [''A'', ''C''] \<and>
   snd (descargar_datos cliente_sin_B [''A'', ''B'', ''C''] 2 4) = [''B: timeout'']"
proof -
  have "distinct [''A'', ''B'', ''C'']" by simp
  from C10_columna_o_advertencia [OF this, of cliente_sin_B 2 4] show ?thesis
    by (simp add: ensamblar_A_B_C descargar_datos_def nombres_def)
qed

text \<open>
  C5. The batch of requested tickers is a set of ticker symbols, a list in which no ticker
  occurs twice. A ticker whose download fails (the client raises, the result is empty, or
  it has no \<^verbatim>\<open>Close\<close> column) is recorded in a warning and is not a column of the table
  returned, and the loop goes on, so that every ticker whose download is valid is a column
  of the table. In particular, when exactly one of three requested tickers fails and the
  other two are valid, the table has exactly 2 columns and exactly one warning is
  recorded.
\<close>

theorem C5_fallo_por_ticker:
  assumes "distinct tickers"
  shows "(\<forall>t \<in> set tickers. descarga_fallida (yf t inicio fin) \<longrightarrow>
            \<not> tiene_columna (fst (descargar_datos yf tickers inicio fin)) t \<and>
            (\<exists>e. t @ '': '' @ e \<in> set (snd (descargar_datos yf tickers inicio fin)))) \<and>
         (\<forall>t \<in> set tickers. descarga_valida (yf t inicio fin) \<longrightarrow>
            tiene_columna (fst (descargar_datos yf tickers inicio fin)) t) \<and>
         (length tickers = 3 \<and>
          length (filter (\<lambda>t. descarga_fallida (yf t inicio fin)) tickers) = 1 \<and>
          length (filter (\<lambda>t. descarga_valida (yf t inicio fin)) tickers) = 2 \<longrightarrow>
            ncolumnas (fst (descargar_datos yf tickers inicio fin)) = 2 \<and>
            length (snd (descargar_datos yf tickers inicio fin)) = 1)"
proof -
  have d: "nombres (fst (descargar_datos yf tickers inicio fin)) =
           nombres (fst (ensamblar yf tickers inicio fin))"
    "snd (descargar_datos yf tickers inicio fin) = snd (ensamblar yf tickers inicio fin)"
    by (simp_all add: descargar_datos_def Let_def)
  show ?thesis
    using ensamblar_fallida [of _ tickers yf inicio fin] ensamblar_valida [of _ tickers yf inicio fin]
      ensamblar_uno_de_tres [OF assms, of yf inicio fin] assms
    by (simp add: tiene_columna_nombres ncolumnas_nombres d)
qed

theorem C5_fallo_por_ticker_witness:
  "descargar_datos cliente_sin_B [''A'', ''B'', ''C''] 2 4 =
     (\<lparr>indice = [2, 3], columnas = [(''A'', [Fin 1, Fin 2]), (''C'', [Fin 1, Fin 2])]\<rparr>,
      [''B: timeout'']) \<and>
   \<not> tiene_columna (fst (descargar_datos cliente_sin_B [''A'', ''B'', ''C''] 2 4)) ''B'' \<and>
   tiene_columna (fst (descargar_datos cliente_sin_B [''A'', ''B'', ''C''] 2 4)) ''A'' \<and>
   tiene_columna (fst (descargar_datos cliente_sin_B [''A'', ''B'', ''C''] 2 4)) ''C'' \<and>
   ncolumnas (fst (descargar_datos cliente_sin_B [''A'', ''B'', ''C''] 2 4)) = 2 \<and>
   length (snd (descargar_datos cliente_sin_B [''A'', ''B'', ''C''] 2 4)) = 1"
proof -
  have "distinct [''A'', ''B'', ''C'']" by simp
  from C5_fallo_por_ticker [OF this, of cliente_sin_B 2 4] show ?thesis
    by (simp add: cliente_sin_B_estados)
      (simp add: descargar_datos_def ensamblar_A_B_C dropna_A_C)
qed

text \<open>
  C8. When something is selected and the table that \<^verbatim>\<open>descargar_datos\<close> returns is empty,
  the render pass shows the download warnings and then the error message, and stops there:
  no metric is computed and no chart or table is shown.
\<close>

theorem C8_tabla_vacia:
  assumes "activos_seleccionados \<noteq> []"
    and "vacio (fst (descargar_datos yf activos_seleccionados fecha_inicio fecha_fin))"
  shows "pase yf activos_seleccionados fecha_inicio fecha_fin =
           map Advertencia (snd (descargar_datos yf activos_seleccionados fecha_inicio fecha_fin)) @
           [Error_visible Sin_datos_validos] \<and>
         \<not> list_ex metrica_o_grafico (pase yf activos_seleccionados fecha_inicio fecha_fin)"
proof -
  have "\<not> list_ex metrica_o_grafico (map Advertencia ws)" for ws
    by (induction ws) simp_all
  then show ?thesis using assms by (simp add: pase_def Let_def)
qed

theorem C8_tabla_vacia_witness:
  "vacio (fst (descargar_datos cliente_sin_B [''B''] 2 4)) \<and>
   pase cliente_sin_B [''B''] 2 4 = [Advertencia ''B: timeout'', Error_visible Sin_datos_validos] \<and>
   \<not> list_ex metrica_o_grafico (pase cliente_sin_B [''B''] 2 4)"
proof -
  have d: "descargar_datos cliente_sin_B [''B''] 2 4 = (\<lparr>indice = [], columnas = []\<rparr>, [''B: timeout''])"
    by (simp add: descargar_datos_def ensamblar_def paso_cliente_sin_B dropna_def)
  then have v: "vacio (fst (descargar_datos cliente_sin_B [''B''] 2 4))"
    by (simp add: vacio_def)
  have "[''B''] \<noteq> []" by simp
  from C8_tabla_vacia [OF this v] v show ?thesis by (simp add: d)
qed

section \<open>Claims about the correlation matrix\<close>

text \<open>
  C6, amended. The correlation matrix computed from the returns table is symmetric. The
  diagonal entry of a finite return series that is not constant equals 1; the diagonal
  entry of a finite return series that is constant (zero variance) is NaN.
\<close>

theorem C6_correlacion:
  assumes "i < ncolumnas retornos" and "j < ncolumnas retornos"
  shows "entrada (corr retornos) i j = entrada (corr retornos) j i \<and>
         (list_all finita (snd (columnas retornos ! i)) \<and> \<not> constante (snd (columnas retornos ! i))
            \<longrightarrow> entrada (corr retornos) i i = Fin 1) \<and>
         (list_all finita (snd (columnas retornos ! i)) \<and> constante (snd (columnas retornos ! i))
            \<longrightarrow> entrada (corr retornos) i i = NaN)"
proof -
  have "corr_par xs xs = NaN" if "list_all finita xs" "constante xs" for xs
  proof (cases "xs = []")
    case True
    then show ?thesis by (simp add: corr_par_def)
  next
    case False
    with that show ?thesis by (simp add: corr_par_diagonal)
  qed
  then show ?thesis
    using assms corr_par_simetrica [of "snd (columnas retornos ! i)" "snd (columnas retornos ! j)"]
      corr_par_diagonal [of "snd (columnas retornos ! i)"] no_constante_no_vacia
    by (auto simp add: entrada_corr)
qed

theorem C6_correlacion_witness:
  "entrada (corr retornos_A_B) 0 1 = entrada (corr retornos_A_B) 1 0 \<and>
   entrada (corr retornos_A_B) 0 0 = Fin 1"
proof -
  have "0 < ncolumnas retornos_A_B" "1 < ncolumnas retornos_A_B"
    by (simp_all add: retornos_A_B_def ncolumnas_def)
  from C6_correlacion [OF this] show ?thesis
    by (simp add: retornos_A_B_def constante_def primero_def)
qed

text \<open>
  C6, as stated, fails on the diagonal for a return series of zero variance: the returns of
  the prices 100, 110, 121 are 0.10, 0.10, the divisor of the coefficient is zero and the
  only entry of the matrix is NaN, not 1.
\<close>

theorem C6_counterexample:
  "calcular_metricas precios_100_110_121 = Inr (metricas_100_110_121, retornos_100_110_121) \<and>
   corr retornos_100_110_121 = [(''A'', [(''A'', NaN)])] \<and>
   entrada (corr retornos_100_110_121) 0 0 \<noteq> Fin 1"
  by (simp add: calcular_metricas_100_110_121)
    (simp add: corr_def entrada_def retornos_100_110_121_def corr_par_def Let_def fsub_def)

section \<open>Claims about the maximum drawdown\<close>




end
